theory Spec2Isabelle
  imports Main "HOL-Library.Multiset"
begin

section \<open>JavaScript values\<close>

text \<open>
  The values that travel through the store are JSON values: request bodies, the arguments of
  \<^verbatim>\<open>JSON.stringify\<close> and the results of \<^verbatim>\<open>JSON.parse\<close>. An object is the list of its
  own properties in insertion order (the keys of one object are distinct); numbers are the
  integers. The JavaScript value \<^verbatim>\<open>undefined\<close> is \<open>None\<close> of \<open>json option\<close>.
\<close>

datatype json =
    JNull
  | JBool bool
  | JNum int
  | JStr string
  | JArr "json list"
  | JObj "(string \<times> json) list"

text \<open>What the source raises or rejects with: a \<^verbatim>\<open>TypeError\<close> of the language, a
  \<^verbatim>\<open>new Error(message)\<close> of the store, or the error object of the sqlite3 driver (by its
  \<^verbatim>\<open>code\<close>).\<close>

datatype error =
    TypeError
  | Error string
  | SqliteError string

text \<open>Truthiness, as \<^verbatim>\<open>||\<close>, \<^verbatim>\<open>&&\<close> and \<^verbatim>\<open>!\<close> read a value.\<close>

fun truthy :: "json option \<Rightarrow> bool" where
  "truthy None = False"
| "truthy (Some JNull) = False"
| "truthy (Some (JBool b)) = b"
| "truthy (Some (JNum n)) = (n \<noteq> 0)"
| "truthy (Some (JStr s)) = (s \<noteq> [])"
| "truthy (Some (JArr xs)) = True"
| "truthy (Some (JObj kvs)) = True"

text \<open>\<^verbatim>\<open>v || d\<close> where the right operand \<open>d\<close> is a value.\<close>

definition js_or :: "json option \<Rightarrow> json \<Rightarrow> json" where
  "js_or v d = (case v of None \<Rightarrow> d | Some x \<Rightarrow> if truthy (Some x) then x else d)"

text \<open>
  Property read \<^verbatim>\<open>x.k\<close>: a \<^verbatim>\<open>TypeError\<close> on \<^verbatim>\<open>null\<close>, the own property of an object, and
  \<^verbatim>\<open>undefined\<close> on every other value (none of the keys the source reads is a built-in
  property of a string, a number, a boolean or an array).
\<close>

fun get_prop :: "json \<Rightarrow> string \<Rightarrow> error + json option" where
  "get_prop JNull k = Inl TypeError"
| "get_prop (JObj kvs) k = Inr (map_of kvs k)"
| "get_prop (JBool b) k = Inr None"
| "get_prop (JNum n) k = Inr None"
| "get_prop (JStr s) k = Inr None"
| "get_prop (JArr xs) k = Inr None"

section \<open>Tables\<close>

text \<open>\<^verbatim>\<open>CURRENT_TIMESTAMP\<close> has a resolution of one second: a timestamp is the number of
  seconds on the store's clock, and is written as that number where it is a property of
  an object.\<close>

type_synonym timestamp = nat

text \<open>Table \<^verbatim>\<open>users\<close>, with the columns the store reads and writes (both schemas declare them,
  with \<^verbatim>\<open>username\<close> and \<^verbatim>\<open>email\<close> each \<^verbatim>\<open>UNIQUE NOT NULL\<close>); \<open>user_id\<close> is the column
  \<^verbatim>\<open>id\<close>.\<close>

record user_row =
  user_id :: nat
  username :: string
  email :: string
  password_hash :: string
  display_name :: "string option"
  last_login :: "timestamp option"
  is_active :: bool

text \<open>Table \<^verbatim>\<open>game_saves\<close> as \<^verbatim>\<open>schema.sql\<close> declares it: the three serialized columns,
  no uniqueness constraint but the primary key \<^verbatim>\<open>id\<close>. \<open>'t\<close> is the type of the text
  the JSON library writes.\<close>

record 't save_row =
  save_id :: nat
  save_user_id :: nat
  game_state :: 't
  plots_data :: 't
  camera_data :: 't
  updated_at :: timestamp

text \<open>Table \<^verbatim>\<open>game_saves\<close> as \<^verbatim>\<open>createTablesDirectly\<close> declares it (the fallback taken when
  \<^verbatim>\<open>schema.sql\<close> is not found): score columns, and no \<^verbatim>\<open>game_state\<close>, \<^verbatim>\<open>plots_data\<close> or
  \<^verbatim>\<open>camera_data\<close>.\<close>

record direct_save_row =
  dsave_id :: nat
  dsave_user_id :: nat
  level :: int
  coins :: int
  sustainability_score :: int
  dsave_updated_at :: timestamp

text \<open>The store holds \<^verbatim>\<open>game_saves\<close> in one of the two layouts, depending on which branch of
  \<^verbatim>\<open>initSchema\<close> created it.\<close>

datatype 't saves_table =
    FileSaves "'t save_row list"
  | DirectSaves "direct_save_row list"

text \<open>The store: its tables in rowid order and the \<^verbatim>\<open>AUTOINCREMENT\<close> counters.\<close>

record 't database =
  users :: "user_row list"
  users_seq :: nat
  game_saves :: "'t saves_table"
  game_saves_seq :: nat

section \<open>Queries\<close>

text \<open>
  \<^verbatim>\<open>ORDER BY key DESC\<close>. SQL leaves the order of rows with equal keys open; the model keeps
  them in scan order.
\<close>

fun insert_desc :: "('a \<Rightarrow> 'k::linorder) \<Rightarrow> 'a \<Rightarrow> 'a list \<Rightarrow> 'a list" where
  "insert_desc key x [] = [x]"
| "insert_desc key x (y # ys) =
     (if key y \<le> key x then x # y # ys else y # insert_desc key x ys)"

definition order_by_desc :: "('a \<Rightarrow> 'k::linorder) \<Rightarrow> 'a list \<Rightarrow> 'a list" where
  "order_by_desc key rows = foldr (insert_desc key) rows []"

text \<open>\<^verbatim>\<open>LIMIT n\<close>: SQLite reads a negative limit as no limit.\<close>

definition sql_limit :: "int \<Rightarrow> 'a list \<Rightarrow> 'a list" where
  "sql_limit n rows = (if n < 0 then rows else take (nat n) rows)"

section \<open>Leaderboard\<close>

text \<open>A row of the join \<^verbatim>\<open>users u JOIN game_saves gs ON u.id = gs.user_id\<close>, with the selected
  columns.\<close>

record lb_row =
  lb_username :: string
  lb_display_name :: "string option"
  lb_score :: int
  lb_updated_at :: timestamp

definition join_users_saves ::
  "(direct_save_row \<Rightarrow> int) \<Rightarrow> user_row list \<Rightarrow> direct_save_row list \<Rightarrow> lb_row list" where
  "join_users_saves col us saves =
     concat (map (\<lambda>gs. map (\<lambda>u. \<lparr>lb_username = username u, lb_display_name = display_name u,
                                   lb_score = col gs, lb_updated_at = dsave_updated_at gs\<rparr>)
                            (filter (\<lambda>u. user_id u = dsave_user_id gs) us)) saves)"

text \<open>An entry of the result: the object literal
  \<^verbatim>\<open>{rank, username, score, lastUpdated}\<close>.\<close>

record lb_entry =
  rank :: nat
  entry_username :: string
  score :: int
  lastUpdated :: timestamp

text \<open>\<^verbatim>\<open>row.display_name || row.username\<close>\<close>

definition shown_name :: "lb_row \<Rightarrow> string" where
  "shown_name row =
     (case lb_display_name row of
        None \<Rightarrow> lb_username row
      | Some d \<Rightarrow> if d \<noteq> [] then d else lb_username row)"

text \<open>\<^verbatim>\<open>rows.map((row, index) => ({rank: index + 1, ...}))\<close>\<close>

fun rank_rows :: "nat \<Rightarrow> lb_row list \<Rightarrow> lb_entry list" where
  "rank_rows index [] = []"
| "rank_rows index (row # rows) =
     \<lparr>rank = index + 1, entry_username = shown_name row, score = lb_score row,
      lastUpdated = lb_updated_at row\<rparr> # rank_rows (index + 1) rows"

text \<open>The \<^verbatim>\<open>switch\<close> of \<^verbatim>\<open>getLeaderboard\<close>: the score column of a category, or none.\<close>

definition score_column :: "string \<Rightarrow> (direct_save_row \<Rightarrow> int) option" where
  "score_column category =
     (if category = ''coins'' then Some coins
      else if category = ''level'' then Some level
      else if category = ''sustainability'' then Some sustainability_score
      else None)"

text \<open>
  \<^verbatim>\<open>Database.getLeaderboard(category = 'coins', limit = 10)\<close>, called with both arguments (as
  every caller does). The three queries name the score columns of the
  \<^verbatim>\<open>createTablesDirectly\<close> layout; on the \<^verbatim>\<open>schema.sql\<close> layout the statement does not
  compile (no such column) and the driver's error is passed to \<^verbatim>\<open>reject\<close>.
\<close>

definition getLeaderboard :: "'t database \<Rightarrow> string \<Rightarrow> int \<Rightarrow> error + lb_entry list" where
  "getLeaderboard db category limit =
     (case score_column category of
        None \<Rightarrow> Inl (Error ''Invalid leaderboard category'')
      | Some col \<Rightarrow>
          (case game_saves db of
             FileSaves rows \<Rightarrow> Inl (SqliteError ''SQLITE_ERROR'')
           | DirectSaves rows \<Rightarrow>
               Inr (rank_rows 0
                     (sql_limit limit
                       (order_by_desc lb_score (join_users_saves col (users db) rows))))))"

section \<open>Credentials\<close>

text \<open>The next rowid of an \<^verbatim>\<open>AUTOINCREMENT\<close> table: one more than the largest rowid the table
  has ever held.\<close>

definition next_rowid :: "nat \<Rightarrow> nat list \<Rightarrow> nat" where
  "next_rowid seq ids = Suc (fold max ids seq)"

text \<open>What \<^verbatim>\<open>createUser\<close> resolves with: \<^verbatim>\<open>{id: this.lastID, username, email}\<close>.\<close>

record new_user =
  new_id :: nat
  new_username :: string
  new_email :: string

text \<open>
  \<^verbatim>\<open>Database.createUser(username, email, password, displayName = null)\<close>.
  \<open>hashSync\<close> is \<^verbatim>\<open>bcrypt.hashSync(password, 10)\<close> (the salt it draws is not modelled).
  The \<^verbatim>\<open>INSERT\<close> fails when \<^verbatim>\<open>username\<close> or \<^verbatim>\<open>email\<close> equals that of a stored row (the
  columns are \<^verbatim>\<open>UNIQUE\<close> under the default \<^verbatim>\<open>BINARY\<close> collation, whatever \<^verbatim>\<open>is_active\<close> is);
  \<open>unique_code\<close> is the \<^verbatim>\<open>code\<close> the sqlite3 driver puts on that error.
\<close>

definition createUser ::
  "(string \<Rightarrow> string) \<Rightarrow> string \<Rightarrow> 't database \<Rightarrow> string \<Rightarrow> string \<Rightarrow> string \<Rightarrow> string option
     \<Rightarrow> error + (new_user \<times> 't database)" where
  "createUser hashSync unique_code db name mail password displayName =
     (let hashedPassword = hashSync password in
      if list_ex (\<lambda>u. username u = name \<or> email u = mail) (users db)
      then (if unique_code = ''SQLITE_CONSTRAINT_UNIQUE''
            then Inl (Error ''Username or email already exists'')
            else Inl (SqliteError unique_code))
      else
        (let lastID = next_rowid (users_seq db) (map user_id (users db)) in
         Inr (\<lparr>new_id = lastID, new_username = name, new_email = mail\<rparr>,
              db\<lparr>users := users db @
                     [\<lparr>user_id = lastID, username = name, email = mail,
                       password_hash = hashedPassword,
                       display_name =
                         Some (case displayName of
                                 None \<Rightarrow> name
                               | Some d \<Rightarrow> if d \<noteq> [] then d else name),
                       last_login = None, is_active = True\<rparr>],
                 users_seq := lastID\<rparr>)))"

text \<open>What \<^verbatim>\<open>authenticateUser\<close> resolves with.\<close>

record auth_user =
  auth_id :: nat
  auth_username :: string
  auth_email :: string
  auth_display_name :: "string option"

text \<open>
  \<^verbatim>\<open>Database.authenticateUser(usernameOrEmail, password)\<close>. \<^verbatim>\<open>db.get\<close> yields the first row of
  \<^verbatim>\<open>SELECT * FROM users WHERE (username = ? OR email = ?) AND is_active = TRUE\<close>;
  \<open>compareSync\<close> is \<^verbatim>\<open>bcrypt.compareSync\<close>; \<open>now\<close> is \<^verbatim>\<open>CURRENT_TIMESTAMP\<close>.
\<close>

definition authenticateUser ::
  "(string \<Rightarrow> string \<Rightarrow> bool) \<Rightarrow> 't database \<Rightarrow> timestamp \<Rightarrow> string \<Rightarrow> string
     \<Rightarrow> error + (auth_user \<times> 't database)" where
  "authenticateUser compareSync db now usernameOrEmail password =
     (case find (\<lambda>u. (username u = usernameOrEmail \<or> email u = usernameOrEmail) \<and> is_active u)
                (users db) of
        None \<Rightarrow> Inl (Error ''User not found'')
      | Some user \<Rightarrow>
          if \<not> compareSync password (password_hash user)
          then Inl (Error ''Invalid password'')
          else Inr (\<lparr>auth_id = user_id user, auth_username = username user,
                     auth_email = email user, auth_display_name = display_name user\<rparr>,
                    db\<lparr>users := map (\<lambda>u. if user_id u = user_id user
                                           then u\<lparr>last_login := Some now\<rparr> else u)
                                     (users db)\<rparr>))"

section \<open>Game snapshots\<close>

text \<open>
  \<^verbatim>\<open>Database.saveGameState(userId, gameData, metadata = {})\<close>; \<open>stringify\<close> is
  \<^verbatim>\<open>JSON.stringify\<close>. The statement is \<^verbatim>\<open>INSERT OR REPLACE INTO game_saves (user_id, game_state,
  plots_data, camera_data, updated_at)\<close>: it gives no \<^verbatim>\<open>id\<close>, and \<^verbatim>\<open>id\<close> is the only key of the
  table, so no stored row ever conflicts and a row is added. On the \<^verbatim>\<open>createTablesDirectly\<close>
  layout the table has no column \<^verbatim>\<open>game_state\<close> and the driver's error is passed to
  \<^verbatim>\<open>reject\<close>. \<^verbatim>\<open>metadata\<close> is not read.
\<close>

definition saveGameState ::
  "(json \<Rightarrow> 't) \<Rightarrow> 't database \<Rightarrow> timestamp \<Rightarrow> nat \<Rightarrow> json \<Rightarrow> error + (nat \<times> 't database)" where
  "saveGameState stringify db now userId gameData =
     (case get_prop gameData ''plots'' of
        Inl e \<Rightarrow> Inl e
      | Inr p \<Rightarrow>
     (case get_prop gameData ''camera'' of
        Inl e \<Rightarrow> Inl e
      | Inr c \<Rightarrow>
     (case get_prop gameData ''gameState'' of
        Inl e \<Rightarrow> Inl e
      | Inr g \<Rightarrow>
     (let plots = js_or p (JArr []);
          camera = js_or c (JObj [(''x'', JNum 0), (''y'', JNum 0), (''scrollEnabled'', JBool False)])
      in case game_saves db of
           DirectSaves rows \<Rightarrow> Inl (SqliteError ''SQLITE_ERROR'')
         | FileSaves rows \<Rightarrow>
             (let lastID = next_rowid (game_saves_seq db) (map save_id rows) in
              Inr (lastID,
                   db\<lparr>game_saves := FileSaves (rows @
                          [\<lparr>save_id = lastID, save_user_id = userId,
                            game_state = stringify (js_or g (JObj [])),
                            plots_data = stringify plots,
                            camera_data = stringify camera,
                            updated_at = now\<rparr>]),
                      game_saves_seq := lastID\<rparr>))))))"

text \<open>The object \<^verbatim>\<open>loadGameState\<close> resolves with:
  \<^verbatim>\<open>{gameData: {gameState, plots, camera, sustainabilityMetrics, weather, season},
    metadata: {lastSaved}}\<close>.\<close>

definition loaded_object :: "json \<Rightarrow> json \<Rightarrow> json \<Rightarrow> json option \<Rightarrow> json option \<Rightarrow> json option \<Rightarrow> timestamp \<Rightarrow> json" where
  "loaded_object gameState plots camera metrics weather season saved =
     JObj [(''gameData'',
            JObj [(''gameState'', gameState),
                  (''plots'', plots),
                  (''camera'', camera),
                  (''sustainabilityMetrics'', js_or metrics (JObj [])),
                  (''weather'', js_or weather (JObj [])),
                  (''season'', js_or season (JObj []))]),
           (''metadata'', JObj [(''lastSaved'', JNum (int saved))])]"

text \<open>
  \<^verbatim>\<open>Database.loadGameState(userId)\<close>; \<open>parse\<close> is \<^verbatim>\<open>JSON.parse\<close>, \<open>None\<close> where it throws.
  The row is the first of \<^verbatim>\<open>WHERE user_id = ? ORDER BY updated_at DESC LIMIT 1\<close>; \<open>Inr None\<close> is
  \<^verbatim>\<open>resolve(null)\<close>. Everything thrown inside the \<^verbatim>\<open>try\<close> is rejected as
  \<^verbatim>\<open>Invalid game data format\<close>. A row of the \<^verbatim>\<open>createTablesDirectly\<close> layout has no
  \<^verbatim>\<open>game_state\<close>, and \<^verbatim>\<open>JSON.parse(undefined)\<close> throws.
\<close>

definition loadGameState :: "('t \<Rightarrow> json option) \<Rightarrow> 't database \<Rightarrow> nat \<Rightarrow> error + json option" where
  "loadGameState parse db userId =
     (case game_saves db of
        DirectSaves rows \<Rightarrow>
          (if filter (\<lambda>r. dsave_user_id r = userId) rows = [] then Inr None
           else Inl (Error ''Invalid game data format''))
      | FileSaves rows \<Rightarrow>
          (case order_by_desc updated_at (filter (\<lambda>r. save_user_id r = userId) rows) of
             [] \<Rightarrow> Inr None
           | save # others \<Rightarrow>
               (case (parse (game_state save), parse (plots_data save), parse (camera_data save)) of
                  (Some gameState, Some plots, Some camera) \<Rightarrow>
                    (case (get_prop gameState ''sustainabilityMetrics'',
                           get_prop gameState ''weather'',
                           get_prop gameState ''season'') of
                       (Inr metrics, Inr weather, Inr season) \<Rightarrow>
                         Inr (Some (loaded_object gameState plots camera metrics weather season
                                      (updated_at save)))
                     | _ \<Rightarrow> Inl (Error ''Invalid game data format''))
                | _ \<Rightarrow> Inl (Error ''Invalid game data format''))))"

section \<open>Leaderboard routes\<close>

text \<open>A handler answers with \<^verbatim>\<open>res.status(code).json({error: message})\<close> or with a body.\<close>

datatype 'a response =
    Status nat string
  | Ok 'a

text \<open>\<^verbatim>\<open>parseInt(req.query.limit) || 10\<close>; \<open>None\<close> is \<^verbatim>\<open>NaN\<close> (no or no numeric parameter).\<close>

definition query_limit :: "int option \<Rightarrow> int" where
  "query_limit q = (case q of None \<Rightarrow> 10 | Some n \<Rightarrow> if n = 0 then 10 else n)"


text \<open>Property read on an entry of \<^verbatim>\<open>getLeaderboard\<close>: the object has the four properties of
  its literal and no other.\<close>

definition entry_prop :: "lb_entry \<Rightarrow> string \<Rightarrow> json option" where
  "entry_prop entry k =
     map_of [(''rank'', JNum (int (rank entry))),
             (''username'', JStr (entry_username entry)),
             (''score'', JNum (score entry)),
             (''lastUpdated'', JNum (int (lastUpdated entry)))] k"

text \<open>
  \<^verbatim>\<open>routes/leaderboard.js\<close> binds \<^verbatim>\<open>database\<close> to what \<^verbatim>\<open>database/database.js\<close> exports, the
  class \<^verbatim>\<open>Database\<close>. \<^verbatim>\<open>getLeaderboard\<close> is a method of the instances of the class; the class
  has no property of that name, so \<^verbatim>\<open>database.getLeaderboard(category, limit)\<close> calls
  \<^verbatim>\<open>undefined\<close> and throws a \<^verbatim>\<open>TypeError\<close>, whatever the arguments.
\<close>

definition class_getLeaderboard :: "string \<Rightarrow> int \<Rightarrow> error + lb_entry list" where
  "class_getLeaderboard category limit = Inl TypeError"

definition validCategories :: "string list" where
  "validCategories = [''total_coins'', ''farm_level'', ''sustainability'']"

text \<open>An entry as the handlers of \<^verbatim>\<open>routes/leaderboard.js\<close> format it:
  \<^verbatim>\<open>{rank: entry.rank_position, username: entry.username, score: entry.score,
    updatedAt: entry.updated_at}\<close>. The display string \<^verbatim>\<open>formattedScore\<close> is left out.\<close>

record formatted_entry =
  f_rank :: "json option"
  f_username :: "json option"
  f_score :: "json option"
  f_updatedAt :: "json option"

definition format_entry :: "lb_entry \<Rightarrow> formatted_entry" where
  "format_entry entry =
     \<lparr>f_rank = entry_prop entry ''rank_position'',
      f_username = entry_prop entry ''username'',
      f_score = entry_prop entry ''score'',
      f_updatedAt = entry_prop entry ''updated_at''\<rparr>"

text \<open>\<^verbatim>\<open>router.get('/:category')\<close> of \<^verbatim>\<open>routes/leaderboard.js\<close>.\<close>

definition get_category :: "string \<Rightarrow> int option \<Rightarrow> formatted_entry list response" where
  "get_category category q =
     (let limit = query_limit q in
      if category \<notin> set validCategories then Status 400 ''Invalid category''
      else if limit > 100 then Status 400 ''Limit cannot exceed 100''
      else case class_getLeaderboard category limit of
             Inl e \<Rightarrow> Status 500 ''Failed to fetch leaderboard''
           | Inr leaderboard \<Rightarrow> Ok (map format_entry leaderboard))"

text \<open>\<^verbatim>\<open>router.get('/')\<close>: the top five of every category, in the order of the loop; the first
  rejection ends the handler.\<close>

fun get_summary_loop :: "string list \<Rightarrow> error + (string \<times> formatted_entry list) list" where
  "get_summary_loop [] = Inr []"
| "get_summary_loop (category # categories) =
     (case class_getLeaderboard category 5 of
        Inl e \<Rightarrow> Inl e
      | Inr data \<Rightarrow>
          (case get_summary_loop categories of
             Inl e \<Rightarrow> Inl e
           | Inr leaderboards \<Rightarrow> Inr ((category, map format_entry data) # leaderboards)))"

definition get_summary :: "(string \<times> formatted_entry list) list response" where
  "get_summary =
     (case get_summary_loop validCategories of
        Inl e \<Rightarrow> Status 500 ''Failed to fetch leaderboards''
      | Inr leaderboards \<Rightarrow> Ok leaderboards)"

text \<open>\<^verbatim>\<open>ratings[entry.score] || 'Unknown'\<close> with
  \<^verbatim>\<open>ratings = ['', 'Beginner', 'Learning', 'Eco Enthusiast', 'Green Farmer', 'Eco Master']\<close>.\<close>

definition ratings :: "string list" where
  "ratings = [[], ''Beginner'', ''Learning'', ''Eco Enthusiast'', ''Green Farmer'', ''Eco Master'']"

definition rating_of_score :: "int \<Rightarrow> string" where
  "rating_of_score n =
     (if 0 \<le> n \<and> nat n < length ratings \<and> ratings ! nat n \<noteq> [] then ratings ! nat n
      else ''Unknown'')"

text \<open>An entry as \<^verbatim>\<open>router.get('/sustainability/detailed')\<close> formats it; the badges are left
  out.\<close>

record detailed_entry =
  d_rank :: "json option"
  d_username :: "json option"
  d_sustainabilityRating :: string
  d_score :: "json option"
  d_updatedAt :: "json option"

definition format_detailed :: "lb_entry \<Rightarrow> detailed_entry" where
  "format_detailed entry =
     \<lparr>d_rank = entry_prop entry ''rank_position'',
      d_username = entry_prop entry ''username'',
      d_sustainabilityRating = rating_of_score (score entry),
      d_score = entry_prop entry ''score'',
      d_updatedAt = entry_prop entry ''updated_at''\<rparr>"

definition get_detailed :: "int option \<Rightarrow> detailed_entry list response" where
  "get_detailed q =
     (case class_getLeaderboard ''sustainability'' (query_limit q) of
        Inl e \<Rightarrow> Status 500 ''Failed to fetch detailed sustainability leaderboard''
      | Inr leaderboard \<Rightarrow> Ok (map format_detailed leaderboard))"

text \<open>\<^verbatim>\<open>entry.user_id === parseInt(userId)\<close>; \<open>None\<close> on the right is \<^verbatim>\<open>NaN\<close>.\<close>

definition strict_equal :: "json option \<Rightarrow> int option \<Rightarrow> bool" where
  "strict_equal v n = (case n of None \<Rightarrow> False | Some k \<Rightarrow> v = Some (JNum k))"

text \<open>A user's standing in one category: \<^verbatim>\<open>{rank, score, totalPlayers}\<close>.\<close>

record position =
  p_rank :: "json option"
  p_score :: "json option"
  p_totalPlayers :: nat

text \<open>The search of \<^verbatim>\<open>router.get('/user/:userId/position')\<close> in the ranking of one category:
  \<^verbatim>\<open>fullLeaderboard.find(entry => entry.user_id === parseInt(userId))\<close> and the standing made
  of what it finds.\<close>

definition locate_user :: "int option \<Rightarrow> lb_entry list \<Rightarrow> position" where
  "locate_user userId fullLeaderboard =
     (case find (\<lambda>entry. strict_equal (entry_prop entry ''user_id'') userId) fullLeaderboard of
        Some userEntry \<Rightarrow>
          \<lparr>p_rank = entry_prop userEntry ''rank_position'',
           p_score = entry_prop userEntry ''score'',
           p_totalPlayers = length fullLeaderboard\<rparr>
      | None \<Rightarrow>
          \<lparr>p_rank = Some JNull, p_score = Some (JNum 0),
           p_totalPlayers = length fullLeaderboard\<rparr>)"

text \<open>\<^verbatim>\<open>router.get('/user/:userId/position')\<close>: for every category the ranking of up to 1000
  rows is asked for and searched; the first rejection ends the handler.\<close>

fun get_position_loop :: "int option \<Rightarrow> string list \<Rightarrow> error + (string \<times> position) list" where
  "get_position_loop userId [] = Inr []"
| "get_position_loop userId (category # categories) =
     (case class_getLeaderboard category 1000 of
        Inl e \<Rightarrow> Inl e
      | Inr fullLeaderboard \<Rightarrow>
          (case get_position_loop userId categories of
             Inl e \<Rightarrow> Inl e
           | Inr positions \<Rightarrow> Inr ((category, locate_user userId fullLeaderboard) # positions)))"

definition get_user_position :: "int option \<Rightarrow> (string \<times> position) list response" where
  "get_user_position userId =
     (case get_position_loop userId validCategories of
        Inl e \<Rightarrow> Status 500 ''Failed to fetch user leaderboard positions''
      | Inr positions \<Rightarrow> Ok positions)"

section \<open>Sessions and achievements\<close>

text \<open>The failures of the session manager and of the achievement ledger, as the specification
  names them.\<close>

datatype engine_error =
    InvalidSession
  | ExpiredSession
  | DuplicateAchievement

text \<open>Table \<^verbatim>\<open>user_sessions\<close> of \<^verbatim>\<open>schema.sql\<close>.\<close>

record session_row =
  session_user_id :: nat
  token_hash :: string
  expires_at :: timestamp
  created_at :: timestamp
  last_used :: timestamp
  ip_address :: string
  user_agent :: string

text \<open>The identity a validated session yields: the bound user's id, and the username of
  that user's row.\<close>

record identity =
  ident_id :: nat
  ident_username :: "string option"

text \<open>Modelled from the spec: the store's session methods (\<^verbatim>\<open>createSession\<close>,
  \<^verbatim>\<open>validateSession\<close>) are called by the routes and defined in no source file. \<open>issue\<close>
  stores the fingerprint of the token with expiry \<open>now + ttl\<close> and hands the raw token back;
  the random token is an argument, \<open>fingerprint\<close> is the one-way digest.
\<close>

definition issue ::
  "(string \<Rightarrow> string) \<Rightarrow> session_row list \<Rightarrow> timestamp \<Rightarrow> string \<Rightarrow> nat \<Rightarrow> nat \<Rightarrow> string \<times> string
     \<Rightarrow> string \<times> session_row \<times> session_row list" where
  "issue fingerprint sessions now rawToken userId ttl originMeta =
     (let session = \<lparr>session_user_id = userId, token_hash = fingerprint rawToken,
                      expires_at = now + ttl, created_at = now, last_used = now,
                      ip_address = fst originMeta, user_agent = snd originMeta\<rparr>
      in (rawToken, session, sessions @ [session]))"

text \<open>Modelled from the spec: the store's \<^verbatim>\<open>validateSession\<close> is called by \<^verbatim>\<open>authenticateToken\<close>
  and defined in no source file. \<open>validate\<close> recomputes the fingerprint and looks the session up; it
  fails with \<open>InvalidSession\<close> if there is none and with \<open>ExpiredSession\<close> if the session is
  past its expiry (a session is valid iff current time < expiry); on success it refreshes
  last-used and returns the bound user's identity.
\<close>

definition validate ::
  "(string \<Rightarrow> string) \<Rightarrow> user_row list \<Rightarrow> session_row list \<Rightarrow> timestamp \<Rightarrow> string
     \<Rightarrow> engine_error + (identity \<times> session_row list)" where
  "validate fingerprint us sessions now rawToken =
     (case find (\<lambda>s. token_hash s = fingerprint rawToken) sessions of
        None \<Rightarrow> Inl InvalidSession
      | Some session \<Rightarrow>
          if now < expires_at session then
            Inr (\<lparr>ident_id = session_user_id session,
                  ident_username =
                    map_option username (find (\<lambda>u. user_id u = session_user_id session) us)\<rparr>,
                 map (\<lambda>s. if token_hash s = fingerprint rawToken then s\<lparr>last_used := now\<rparr> else s)
                     sessions)
          else Inl ExpiredSession)"

text \<open>Table \<^verbatim>\<open>achievements\<close> of \<^verbatim>\<open>schema.sql\<close>.\<close>

record achievement_row =
  achievement_user_id :: nat
  achievement_type :: string
  achievement_name :: string
  description :: "string option"
  points :: nat
  earned_at :: timestamp

text \<open>Modelled from the spec: the store's \<^verbatim>\<open>addAchievement\<close> is called by the routes and defined
  in no source file. \<open>add\<close> fails with \<open>DuplicateAchievement\<close> if (userId, name) already
  exists, and stores and returns the new record otherwise.
\<close>

definition add ::
  "achievement_row list \<Rightarrow> timestamp \<Rightarrow> nat \<Rightarrow> string \<Rightarrow> string \<Rightarrow> string option \<Rightarrow> nat
     \<Rightarrow> engine_error + (achievement_row \<times> achievement_row list)" where
  "add ledger now userId atype name descr pts =
     (if list_ex (\<lambda>a. achievement_user_id a = userId \<and> achievement_name a = name) ledger
      then Inl DuplicateAchievement
      else
        (let achievement = \<lparr>achievement_user_id = userId, achievement_type = atype,
                            achievement_name = name, description = descr, points = pts,
                            earned_at = now\<rparr>
         in Inr (achievement, ledger @ [achievement])))"

section \<open>Sample stores\<close>

text \<open>
  Concrete stores and payloads, on which the operations are run. On them the text the JSON
  library writes for a value is the value itself (\<open>stringify\<close> is the identity, \<open>parse\<close> is
  \<open>Some\<close>), and the following functions stand in for bcrypt.
\<close>

definition sample_hashSync :: "string \<Rightarrow> string" where
  "sample_hashSync password = ''$2b$10$'' @ password"

definition sample_compareSync :: "string \<Rightarrow> string \<Rightarrow> bool" where
  "sample_compareSync password hash = (hash = sample_hashSync password)"

definition sample_users :: "user_row list" where
  "sample_users =
     [\<lparr>user_id = 1, username = ''farmer1'', email = ''f1@x.com'',
       password_hash = sample_hashSync ''pw123456'', display_name = Some ''farmer1'',
       last_login = None, is_active = True\<rparr>,
      \<lparr>user_id = 2, username = ''farmer2'', email = ''f2@x.com'',
       password_hash = sample_hashSync ''hunter22'', display_name = Some ''Farmer Two'',
       last_login = None, is_active = True\<rparr>,
      \<lparr>user_id = 3, username = ''farmer3'', email = ''f3@x.com'',
       password_hash = sample_hashSync ''secret33'', display_name = None,
       last_login = None, is_active = True\<rparr>]"

text \<open>A store created from \<^verbatim>\<open>schema.sql\<close>, with three users and no save.\<close>

definition file_store :: "json database" where
  "file_store = \<lparr>users = sample_users, users_seq = 3, game_saves = FileSaves [], game_saves_seq = 0\<rparr>"


text \<open>A store just created from \<^verbatim>\<open>schema.sql\<close>.\<close>

definition empty_store :: "json database" where
  "empty_store = \<lparr>users = [], users_seq = 0, game_saves = FileSaves [], game_saves_seq = 0\<rparr>"

text \<open>The store after \<^verbatim>\<open>farmer1\<close> has registered on the empty store.\<close>

definition store_farmer1 :: "json database" where
  "store_farmer1 =
     \<lparr>users = [\<lparr>user_id = 1, username = ''farmer1'', email = ''f1@x.com'',
                 password_hash = sample_hashSync ''pw123456'', display_name = Some ''farmer1'',
                 last_login = None, is_active = True\<rparr>],
      users_seq = 1, game_saves = FileSaves [], game_saves_seq = 0\<rparr>"

text \<open>The payload of the specification's scenario, and a second one.\<close>

definition scenario_state :: "(string \<times> json) list" where
  "scenario_state =
     [(''level'', JNum 3), (''coins'', JNum 500), (''xp'', JNum 250),
      (''sustainabilityRating'', JStr ''Learning'')]"

definition scenario_payload :: json where
  "scenario_payload =
     JObj [(''gameState'', JObj scenario_state),
           (''plots'', JArr []),
           (''camera'', JObj [(''x'', JNum 0), (''y'', JNum 0)])]"

definition later_payload :: json where
  "later_payload =
     JObj [(''gameState'', JObj [(''level'', JNum 4), (''coins'', JNum 650)]),
           (''plots'', JArr [JObj [(''crop'', JStr ''wheat'')]]),
           (''camera'', JObj [(''x'', JNum 5), (''y'', JNum 8)])]"

text \<open>The store after \<^verbatim>\<open>farmer1\<close> has saved the scenario's payload at time 100.\<close>

definition store_saved :: "json database" where
  "store_saved =
     store_farmer1
       \<lparr>game_saves := FileSaves
          [\<lparr>save_id = 1, save_user_id = 1, game_state = JObj scenario_state,
            plots_data = JArr [], camera_data = JObj [(''x'', JNum 0), (''y'', JNum 0)],
            updated_at = 100\<rparr>],
        game_saves_seq := 1\<rparr>"

section \<open>Properties of the queries\<close>

lemma set_insert_desc: "set (insert_desc key x ys) = insert x (set ys)"
  by (induction ys) auto

lemma length_insert_desc: "length (insert_desc key x ys) = Suc (length ys)"
  by (induction ys) auto

lemma sorted_insert_desc:
  "sorted_wrt (\<lambda>a b. key b \<le> key a) ys \<Longrightarrow> sorted_wrt (\<lambda>a b. key b \<le> key a) (insert_desc key x ys)"
proof (induction ys)
  case Nil
  then show ?case by simp
next
  case (Cons y ys)
  show ?case
  proof (cases "key y \<le> key x")
    case True
    with Cons.prems show ?thesis by (auto intro: order_trans)
  next
    case False
    with Cons show ?thesis by (auto simp: set_insert_desc)
  qed
qed

lemma set_order_by_desc: "set (order_by_desc key rows) = set rows"
  unfolding order_by_desc_def by (induction rows) (simp_all add: set_insert_desc)

lemma length_order_by_desc: "length (order_by_desc key rows) = length rows"
  unfolding order_by_desc_def by (induction rows) (simp_all add: length_insert_desc)

lemma sorted_order_by_desc: "sorted_wrt (\<lambda>a b. key b \<le> key a) (order_by_desc key rows)"
  unfolding order_by_desc_def by (induction rows) (simp_all add: sorted_insert_desc)


lemma scores_rank_rows: "map score (rank_rows i rows) = map lb_score rows"
  by (induction rows arbitrary: i) simp_all

lemma ranks_rank_rows: "map rank (rank_rows i rows) = [Suc i ..< Suc (i + length rows)]"
proof (induction rows arbitrary: i)
  case Nil
  then show ?case by simp
next
  case (Cons row rows)
  have "[Suc i ..< Suc (i + length (row # rows))] = Suc i # [Suc (Suc i) ..< Suc (Suc i + length rows)]"
    by (subst upt_rec) simp
  with Cons.IH [of "Suc i"] show ?case by simp
qed



lemma getLeaderboard_Inl:
  assumes "getLeaderboard db category limit = Inl e"
  shows "(score_column category = None \<and> e = Error ''Invalid leaderboard category'') \<or>
         (score_column category \<noteq> None \<and> e = SqliteError ''SQLITE_ERROR'' \<and>
          (\<exists>rows. game_saves db = FileSaves rows))"
  using assms by (auto simp: getLeaderboard_def split: option.splits saves_table.splits)

lemma score_column_recognized:
  "(score_column category \<noteq> None) = (category \<in> {''coins'', ''level'', ''sustainability''})"
  by (simp add: score_column_def)

lemma mset_insert_desc: "mset (insert_desc key x ys) = add_mset x (mset ys)"
  by (induction ys) simp_all

lemma mset_order_by_desc: "mset (order_by_desc key rows) = mset rows"
  unfolding order_by_desc_def by (induction rows) (simp_all add: mset_insert_desc)

text \<open>
  Where \<^verbatim>\<open>game_saves\<close> has the score columns (the \<^verbatim>\<open>createTablesDirectly\<close> layout),
  \<^verbatim>\<open>getLeaderboard\<close> does return the stored rows ranked: the entries are the first \<open>limit\<close>
  (all, for a negative limit) of a rearrangement of the joined rows in non-increasing order
  of the category's column, numbered 1, 2, 3, ... in order.
\<close>

lemma getLeaderboard_direct:
  assumes "score_column category = Some col" and "game_saves db = DirectSaves rows"
  shows "\<exists>ordered.
           mset ordered = mset (join_users_saves col (users db) rows) \<and>
           sorted_wrt (\<lambda>a b. lb_score b \<le> lb_score a) ordered \<and>
           getLeaderboard db category limit = Inr (rank_rows 0 (sql_limit limit ordered)) \<and>
           map score (rank_rows 0 (sql_limit limit ordered)) = map lb_score (sql_limit limit ordered) \<and>
           map entry_username (rank_rows 0 (sql_limit limit ordered)) =
             map shown_name (sql_limit limit ordered) \<and>
           map rank (rank_rows 0 (sql_limit limit ordered)) =
             [1 ..< Suc (length (sql_limit limit ordered))]"
proof -
  let ?ordered = "order_by_desc lb_score (join_users_saves col (users db) rows)"
  have names: "map entry_username (rank_rows i rs) = map shown_name rs" for i rs
    by (induction rs arbitrary: i) simp_all
  have "getLeaderboard db category limit = Inr (rank_rows 0 (sql_limit limit ?ordered))"
    using assms by (simp add: getLeaderboard_def)
  then show ?thesis
    using mset_order_by_desc [of lb_score "join_users_saves col (users db) rows"]
      sorted_order_by_desc [of lb_score "join_users_saves col (users db) rows"]
    by (intro exI [of _ ?ordered]) (simp add: scores_rank_rows ranks_rank_rows names)
qed

text \<open>
  C8 on the code. On a store created from \<^verbatim>\<open>schema.sql\<close>, the file \<^verbatim>\<open>initSchema\<close> executes
  when it is present, \<^verbatim>\<open>game_saves\<close> has none of the columns \<^verbatim>\<open>coins\<close>, \<^verbatim>\<open>level\<close> and
  \<^verbatim>\<open>sustainability_score\<close> that the queries of \<^verbatim>\<open>getLeaderboard\<close> name: for every category
  it recognizes, every content of the tables and every limit, it rejects with the driver's
  error and returns no entry.
\<close>

theorem getLeaderboard_schema_file:
  assumes "category \<in> {''coins'', ''level'', ''sustainability''}"
    and "game_saves db = FileSaves rows"
  shows "getLeaderboard db category limit = Inl (SqliteError ''SQLITE_ERROR'')"
proof -
  from assms(1) obtain col where "score_column category = Some col"
    using score_column_recognized [of category] by auto
  with assms(2) show ?thesis by (simp add: getLeaderboard_def)
qed

theorem getLeaderboard_schema_file_witness:
  "''coins'' \<in> {''coins'', ''level'', ''sustainability''} \<and>
   game_saves store_saved =
     FileSaves
       [\<lparr>save_id = 1, save_user_id = 1, game_state = JObj scenario_state,
         plots_data = JArr [], camera_data = JObj [(''x'', JNum 0), (''y'', JNum 0)],
         updated_at = 100\<rparr>] \<and>
   getLeaderboard store_saved ''coins'' 10 = Inl (SqliteError ''SQLITE_ERROR'')"
proof -
  have cat: "''coins'' \<in> {''coins'', ''level'', ''sustainability''}" by simp
  have tab: "game_saves store_saved =
     FileSaves
       [\<lparr>save_id = 1, save_user_id = 1, game_state = JObj scenario_state,
         plots_data = JArr [], camera_data = JObj [(''x'', JNum 0), (''y'', JNum 0)],
         updated_at = 100\<rparr>]"
    by (simp add: store_saved_def)
  show ?thesis
    by (intro conjI cat tab getLeaderboard_schema_file [OF cat tab])
qed



lemma getLeaderboard_unrecognized:
  "score_column category = None \<Longrightarrow>
   getLeaderboard db category limit = Inl (Error ''Invalid leaderboard category'')"
  by (simp add: getLeaderboard_def)

lemma score_column_total_coins: "score_column ''total_coins'' = None"
  by (simp add: score_column_def)









lemma get_summary_loop_class: "categories \<noteq> [] \<Longrightarrow> get_summary_loop categories = Inl TypeError"
  by (cases categories) (simp_all add: class_getLeaderboard_def)

lemma get_position_loop_class:
  "categories \<noteq> [] \<Longrightarrow> get_position_loop userId categories = Inl TypeError"
  by (cases categories) (simp_all add: class_getLeaderboard_def)

text \<open>The handlers of \<^verbatim>\<open>routes/leaderboard.js\<close> answer with no entry and no position: every
  call of \<^verbatim>\<open>database.getLeaderboard\<close> throws, and the handler's \<^verbatim>\<open>catch\<close> answers 500.\<close>

lemma leaderboard_js_answers:
  "get_category category q =
     (if category \<notin> set validCategories then Status 400 ''Invalid category''
      else if query_limit q > 100 then Status 400 ''Limit cannot exceed 100''
      else Status 500 ''Failed to fetch leaderboard'')"
  "get_summary = Status 500 ''Failed to fetch leaderboards''"
  "get_detailed q = Status 500 ''Failed to fetch detailed sustainability leaderboard''"
  "get_user_position userId = Status 500 ''Failed to fetch user leaderboard positions''"
  by (simp_all add: get_category_def get_summary_def get_detailed_def get_user_position_def
      class_getLeaderboard_def get_summary_loop_class get_position_loop_class validCategories_def
      del: get_summary_loop.simps get_position_loop.simps)




lemma createUser_Inr:
  assumes "createUser hashSync code db name mail password displayName = Inr (u, db1)"
  shows "\<not> list_ex (\<lambda>r. username r = name \<or> email r = mail) (users db)"
    and "\<exists>row. users db1 = users db @ [row] \<and> username row = name \<and> email row = mail \<and>
               is_active row \<and> password_hash row = hashSync password"
  using assms by (auto simp: createUser_def Let_def split: if_splits)

lemma createUser_duplicate:
  assumes "list_ex (\<lambda>r. username r = name \<or> email r = mail) (users db)"
  shows "createUser hashSync code db name mail password displayName =
           Inl (if code = ''SQLITE_CONSTRAINT_UNIQUE''
                then Error ''Username or email already exists'' else SqliteError code)"
  using assms by (simp add: createUser_def)

text \<open>
  C7, as the code has it. Let a first \<^verbatim>\<open>createUser\<close> call succeed, and let the store change
  afterwards in any way that keeps the registered usernames and emails stored (users log
  in, others register, the first registrant is deactivated). A second call with the same
  username, or with the same email, equal character for character, is rejected and stores
  nothing. A successful registration keeps usernames and emails pairwise distinct over all
  stored users.
\<close>

theorem createUser_unique:
  assumes "createUser hashSync code db name mail password displayName = Inr (u, db1)"
    and "set (map (\<lambda>r. (username r, email r)) (users db1)) \<subseteq>
         set (map (\<lambda>r. (username r, email r)) (users db2))"
    and "name2 = name \<or> mail2 = mail"
  shows "(\<exists>e. createUser hashSync code db2 name2 mail2 password2 displayName2 = Inl e) \<and>
         (distinct (map username (users db)) \<and> distinct (map email (users db)) \<longrightarrow>
          distinct (map username (users db1)) \<and> distinct (map email (users db1)))"
proof -
  from createUser_Inr [OF assms(1)] obtain row where
    fresh: "\<not> list_ex (\<lambda>r. username r = name \<or> email r = mail) (users db)" and
    row: "users db1 = users db @ [row]" "username row = name" "email row = mail"
    by blast
  from row have "(name, mail) \<in> set (map (\<lambda>r. (username r, email r)) (users db1))"
    by auto
  with assms(2) have "(name, mail) \<in> set (map (\<lambda>r. (username r, email r)) (users db2))"
    by blast
  then obtain row2 where "row2 \<in> set (users db2)" "username row2 = name" "email row2 = mail"
    by auto
  with assms(3) have "list_ex (\<lambda>r. username r = name2 \<or> email r = mail2) (users db2)"
    unfolding list_ex_iff by blast
  then have rejected: "\<exists>e. createUser hashSync code db2 name2 mail2 password2 displayName2 = Inl e"
    using createUser_duplicate by blast
  from fresh have "name \<notin> set (map username (users db))" "mail \<notin> set (map email (users db))"
    by (auto simp: list_ex_iff)
  with row have "distinct (map username (users db)) \<and> distinct (map email (users db)) \<longrightarrow>
          distinct (map username (users db1)) \<and> distinct (map email (users db1))"
    by simp
  with rejected show ?thesis by simp
qed

theorem createUser_unique_witness:
  "createUser sample_hashSync ''SQLITE_CONSTRAINT'' empty_store ''farmer1'' ''f1@x.com''
       ''pw123456'' None =
     Inr (\<lparr>new_id = 1, new_username = ''farmer1'', new_email = ''f1@x.com''\<rparr>, store_farmer1) \<and>
   users (store_farmer1\<lparr>users := map (\<lambda>r. r\<lparr>is_active := False\<rparr>) (users store_farmer1)\<rparr>) =
     [\<lparr>user_id = 1, username = ''farmer1'', email = ''f1@x.com'',
       password_hash = sample_hashSync ''pw123456'', display_name = Some ''farmer1'',
       last_login = None, is_active = False\<rparr>] \<and>
   createUser sample_hashSync ''SQLITE_CONSTRAINT''
       (store_farmer1\<lparr>users := map (\<lambda>r. r\<lparr>is_active := False\<rparr>) (users store_farmer1)\<rparr>)
       ''farmer1'' ''other@x.com'' ''hunter22'' (Some ''Second'') =
     Inl (SqliteError ''SQLITE_CONSTRAINT'') \<and>
   distinct (map username (users store_farmer1)) \<and> distinct (map email (users store_farmer1))"
proof -
  let ?later = "store_farmer1\<lparr>users := map (\<lambda>r. r\<lparr>is_active := False\<rparr>) (users store_farmer1)\<rparr>"
  have first: "createUser sample_hashSync ''SQLITE_CONSTRAINT'' empty_store ''farmer1''
       ''f1@x.com'' ''pw123456'' None =
     Inr (\<lparr>new_id = 1, new_username = ''farmer1'', new_email = ''f1@x.com''\<rparr>, store_farmer1)"
    by (simp add: createUser_def empty_store_def store_farmer1_def next_rowid_def)
  have later: "users ?later =
     [\<lparr>user_id = 1, username = ''farmer1'', email = ''f1@x.com'',
       password_hash = sample_hashSync ''pw123456'', display_name = Some ''farmer1'',
       last_login = None, is_active = False\<rparr>]"
    by (simp add: store_farmer1_def)
  have kept: "set (map (\<lambda>r. (username r, email r)) (users store_farmer1)) \<subseteq>
              set (map (\<lambda>r. (username r, email r)) (users ?later))"
    by (simp add: store_farmer1_def)
  have same: "''farmer1'' = ''farmer1'' \<or> ''other@x.com'' = ''f1@x.com''" by simp
  have before: "distinct (map username (users empty_store)) \<and>
                distinct (map email (users empty_store))"
    by (simp add: empty_store_def)
  have second: "createUser sample_hashSync ''SQLITE_CONSTRAINT'' ?later
       ''farmer1'' ''other@x.com'' ''hunter22'' (Some ''Second'') =
     Inl (SqliteError ''SQLITE_CONSTRAINT'')"
    by (simp add: createUser_def store_farmer1_def)
  from createUser_unique [OF first kept same, of "''hunter22''" "Some ''Second''"] before
  have "distinct (map username (users store_farmer1)) \<and> distinct (map email (users store_farmer1))"
    by blast
  with first later second show ?thesis by (intro conjI) simp_all
qed

text \<open>C7 as stated fails: two registrations whose emails differ only in letter case both
  succeed.\<close>

theorem createUser_case_counterexample:
  "createUser sample_hashSync ''SQLITE_CONSTRAINT_UNIQUE'' empty_store ''farmer1'' ''f1@x.com''
       ''pw123456'' None =
     Inr (\<lparr>new_id = 1, new_username = ''farmer1'', new_email = ''f1@x.com''\<rparr>, store_farmer1) \<and>
   createUser sample_hashSync ''SQLITE_CONSTRAINT_UNIQUE'' store_farmer1 ''farmer9'' ''F1@X.COM''
       ''pw123456'' None =
     Inr (\<lparr>new_id = 2, new_username = ''farmer9'', new_email = ''F1@X.COM''\<rparr>,
          store_farmer1
            \<lparr>users := users store_farmer1 @
               [\<lparr>user_id = 2, username = ''farmer9'', email = ''F1@X.COM'',
                 password_hash = sample_hashSync ''pw123456'', display_name = Some ''farmer9'',
                 last_login = None, is_active = True\<rparr>],
             users_seq := 2\<rparr>)"
  by (simp add: createUser_def empty_store_def store_farmer1_def next_rowid_def)

lemma authenticateUser_Inr:
  assumes "authenticateUser compareSync db now usernameOrEmail password = Inr (a, db1)"
  shows "\<exists>user. find (\<lambda>u. (username u = usernameOrEmail \<or> email u = usernameOrEmail) \<and> is_active u)
                     (users db) = Some user \<and>
                compareSync password (password_hash user) \<and> auth_id a = user_id user"
  using assms by (auto simp: authenticateUser_def split: option.splits if_splits)

lemma find_in_filter: "find P xs = Some x \<Longrightarrow> x \<in> set (filter P xs)"
  by (induction xs) (auto split: if_splits)

lemma find_None_filter: "(find P xs = None) = (filter P xs = [])"
  by (induction xs) auto

text \<open>
  C5, as the code has it. \<^verbatim>\<open>authenticateUser\<close> rejects with \<^verbatim>\<open>User not found\<close> when the name
  is the username or email of no active user, and with \<^verbatim>\<open>Invalid password\<close> when it is that
  of an active user and the hash comparison fails (for every active user it matches): two
  different errors.
\<close>

theorem authenticateUser_errors:
  "(filter (\<lambda>u. (username u = usernameOrEmail \<or> email u = usernameOrEmail) \<and> is_active u)
           (users db) = [] \<longrightarrow>
      authenticateUser compareSync db now usernameOrEmail password = Inl (Error ''User not found'')) \<and>
   (filter (\<lambda>u. (username u = usernameOrEmail \<or> email u = usernameOrEmail) \<and> is_active u)
           (users db) \<noteq> [] \<and>
    list_all (\<lambda>u. \<not> compareSync password (password_hash u))
      (filter (\<lambda>u. (username u = usernameOrEmail \<or> email u = usernameOrEmail) \<and> is_active u)
              (users db)) \<longrightarrow>
      authenticateUser compareSync db now usernameOrEmail password = Inl (Error ''Invalid password'')) \<and>
   Error ''User not found'' \<noteq> Error ''Invalid password''"
proof -
  let ?P = "\<lambda>u. (username u = usernameOrEmail \<or> email u = usernameOrEmail) \<and> is_active u"
  show ?thesis
  proof (cases "find ?P (users db)")
    case None
    then have "filter ?P (users db) = []" by (simp add: find_None_filter)
    with None show ?thesis by (simp add: authenticateUser_def)
  next
    case (Some user)
    then have mem: "user \<in> set (filter ?P (users db))" by (rule find_in_filter)
    then have ne: "filter ?P (users db) \<noteq> []" by (metis empty_iff list.set(1))
    have bad: "\<not> compareSync password (password_hash user)"
      if "list_all (\<lambda>u. \<not> compareSync password (password_hash u)) (filter ?P (users db))"
      using that mem unfolding list_all_iff by blast
    have "authenticateUser compareSync db now usernameOrEmail password = Inl (Error ''Invalid password'')"
      if "list_all (\<lambda>u. \<not> compareSync password (password_hash u)) (filter ?P (users db))"
      using bad [OF that] Some by (simp add: authenticateUser_def)
    with ne show ?thesis by simp
  qed
qed

theorem authenticateUser_errors_witness:
  "filter (\<lambda>u. (username u = ''nosuchuser'' \<or> email u = ''nosuchuser'') \<and> is_active u)
          (users file_store) = [] \<and>
   authenticateUser sample_compareSync file_store 50 ''nosuchuser'' ''x'' =
     Inl (Error ''User not found'') \<and>
   filter (\<lambda>u. (username u = ''farmer1'' \<or> email u = ''farmer1'') \<and> is_active u)
          (users file_store) = [hd sample_users] \<and>
   \<not> sample_compareSync ''wrongpass'' (password_hash (hd sample_users)) \<and>
   authenticateUser sample_compareSync file_store 50 ''farmer1'' ''wrongpass'' =
     Inl (Error ''Invalid password'')"
proof -
  have a: "filter (\<lambda>u. (username u = ''nosuchuser'' \<or> email u = ''nosuchuser'') \<and> is_active u)
          (users file_store) = []"
    by (simp add: file_store_def sample_users_def)
  have b: "filter (\<lambda>u. (username u = ''farmer1'' \<or> email u = ''farmer1'') \<and> is_active u)
          (users file_store) = [hd sample_users]"
    by (simp add: file_store_def sample_users_def)
  have c: "\<not> sample_compareSync ''wrongpass'' (password_hash (hd sample_users))"
    by (simp add: sample_compareSync_def sample_hashSync_def sample_users_def)
  from authenticateUser_errors [where db = file_store and usernameOrEmail = "''nosuchuser''"
      and compareSync = sample_compareSync and now = 50 and password = "''x''"] a
  have d: "authenticateUser sample_compareSync file_store 50 ''nosuchuser'' ''x'' =
     Inl (Error ''User not found'')" by blast
  from authenticateUser_errors [where db = file_store and usernameOrEmail = "''farmer1''"
      and compareSync = sample_compareSync and now = 50 and password = "''wrongpass''"] b c
  have e: "authenticateUser sample_compareSync file_store 50 ''farmer1'' ''wrongpass'' =
     Inl (Error ''Invalid password'')" by simp
  from a b c d e show ?thesis by (intro conjI)
qed

text \<open>C5 as stated fails: a wrong password and an unknown user are rejected with different
  errors.\<close>

theorem authenticateUser_counterexample:
  "authenticateUser sample_compareSync file_store 50 ''farmer1'' ''wrongpass'' =
     Inl (Error ''Invalid password'') \<and>
   authenticateUser sample_compareSync file_store 50 ''nosuchuser'' ''x'' =
     Inl (Error ''User not found'') \<and>
   authenticateUser sample_compareSync file_store 50 ''farmer1'' ''wrongpass'' \<noteq>
   authenticateUser sample_compareSync file_store 50 ''nosuchuser'' ''x''"
  by (simp add: authenticateUser_def file_store_def sample_users_def sample_compareSync_def
      sample_hashSync_def)

lemma fold_max_ge_seq: "seq \<le> fold max ids (seq::nat)"
proof (induction ids arbitrary: seq)
  case Nil
  then show ?case by simp
next
  case (Cons i ids)
  have "seq \<le> max i seq" by simp
  also have "\<dots> \<le> fold max ids (max i seq)" by (rule Cons.IH)
  finally show ?case by simp
qed

lemma fold_max_ge_member: "i \<in> set ids \<Longrightarrow> i \<le> fold max ids (seq::nat)"
proof (induction ids arbitrary: seq)
  case Nil
  then show ?case by simp
next
  case (Cons j ids)
  show ?case
  proof (cases "i = j")
    case True
    have "i \<le> max j seq" using True by simp
    also have "\<dots> \<le> fold max ids (max j seq)" by (rule fold_max_ge_seq)
    finally show ?thesis by simp
  next
    case False
    with Cons.prems have "i \<in> set ids" by simp
    then show ?thesis using Cons.IH by simp
  qed
qed

lemma next_rowid_fresh: "next_rowid seq ids \<notin> set ids"
proof
  assume "next_rowid seq ids \<in> set ids"
  then have "next_rowid seq ids \<le> fold max ids seq" by (rule fold_max_ge_member)
  then show False by (simp add: next_rowid_def)
qed

lemma saveGameState_Inr:
  assumes "saveGameState stringify db now userId gameData = Inr (saveId, db')"
  shows "\<exists>rows p c g.
           game_saves db = FileSaves rows \<and>
           get_prop gameData ''plots'' = Inr p \<and>
           get_prop gameData ''camera'' = Inr c \<and>
           get_prop gameData ''gameState'' = Inr g \<and>
           saveId = next_rowid (game_saves_seq db) (map save_id rows) \<and>
           game_saves db' = FileSaves (rows @
             [\<lparr>save_id = saveId, save_user_id = userId,
               game_state = stringify (js_or g (JObj [])),
               plots_data = stringify (js_or p (JArr [])),
               camera_data = stringify (js_or c (JObj [(''x'', JNum 0), (''y'', JNum 0),
                                                       (''scrollEnabled'', JBool False)])),
               updated_at = now\<rparr>])"
  using assms
  by (auto simp: saveGameState_def Let_def split: sum.splits saves_table.splits)

text \<open>
  C2 on the code: a successful \<^verbatim>\<open>saveGameState\<close> never replaces a row. It adds one row with
  a new id to \<^verbatim>\<open>game_saves\<close> and leaves every stored row as it was, so the user has one
  record more than before.
\<close>

theorem saveGameState_appends:
  assumes "saveGameState stringify db now userId gameData = Inr (saveId, db')"
  shows "\<exists>rows row.
           game_saves db = FileSaves rows \<and>
           game_saves db' = FileSaves (rows @ [row]) \<and>
           save_user_id row = userId \<and> save_id row = saveId \<and>
           saveId \<notin> set (map save_id rows) \<and>
           length (filter (\<lambda>r. save_user_id r = userId) (rows @ [row])) =
             Suc (length (filter (\<lambda>r. save_user_id r = userId) rows))"
proof -
  from saveGameState_Inr [OF assms] obtain rows row where
    "game_saves db = FileSaves rows" "game_saves db' = FileSaves (rows @ [row])"
    "save_user_id row = userId" "save_id row = saveId"
    "saveId = next_rowid (game_saves_seq db) (map save_id rows)"
    by fastforce
  moreover from this have "saveId \<notin> set (map save_id rows)"
    using next_rowid_fresh by metis
  ultimately show ?thesis by auto
qed

theorem saveGameState_appends_witness:
  "saveGameState (\<lambda>v. v) file_store 100 1 scenario_payload =
     Inr (1, file_store
              \<lparr>game_saves := FileSaves
                 [\<lparr>save_id = 1, save_user_id = 1, game_state = JObj scenario_state,
                   plots_data = JArr [], camera_data = JObj [(''x'', JNum 0), (''y'', JNum 0)],
                   updated_at = 100\<rparr>],
               game_saves_seq := 1\<rparr>) \<and>
   saveGameState (\<lambda>v. v)
       (file_store
          \<lparr>game_saves := FileSaves
             [\<lparr>save_id = 1, save_user_id = 1, game_state = JObj scenario_state,
               plots_data = JArr [], camera_data = JObj [(''x'', JNum 0), (''y'', JNum 0)],
               updated_at = 100\<rparr>],
           game_saves_seq := 1\<rparr>)
       160 1 later_payload =
     Inr (2, file_store
              \<lparr>game_saves := FileSaves
                 [\<lparr>save_id = 1, save_user_id = 1, game_state = JObj scenario_state,
                   plots_data = JArr [], camera_data = JObj [(''x'', JNum 0), (''y'', JNum 0)],
                   updated_at = 100\<rparr>,
                  \<lparr>save_id = 2, save_user_id = 1,
                   game_state = JObj [(''level'', JNum 4), (''coins'', JNum 650)],
                   plots_data = JArr [JObj [(''crop'', JStr ''wheat'')]],
                   camera_data = JObj [(''x'', JNum 5), (''y'', JNum 8)],
                   updated_at = 160\<rparr>],
               game_saves_seq := 2\<rparr>) \<and>
   length (filter (\<lambda>r. save_user_id r = 1)
     [\<lparr>save_id = 1, save_user_id = 1, game_state = JObj scenario_state,
       plots_data = JArr [], camera_data = JObj [(''x'', JNum 0), (''y'', JNum 0)],
       updated_at = 100\<rparr>,
      \<lparr>save_id = 2, save_user_id = 1,
       game_state = JObj [(''level'', JNum 4), (''coins'', JNum 650)],
       plots_data = JArr [JObj [(''crop'', JStr ''wheat'')]],
       camera_data = JObj [(''x'', JNum 5), (''y'', JNum 8)],
       updated_at = 160\<rparr>]) = 2"
proof -
  have first: "saveGameState (\<lambda>v. v) file_store 100 1 scenario_payload =
     Inr (1, file_store
              \<lparr>game_saves := FileSaves
                 [\<lparr>save_id = 1, save_user_id = 1, game_state = JObj scenario_state,
                   plots_data = JArr [], camera_data = JObj [(''x'', JNum 0), (''y'', JNum 0)],
                   updated_at = 100\<rparr>],
               game_saves_seq := 1\<rparr>)"
    by (simp add: saveGameState_def scenario_payload_def file_store_def js_or_def next_rowid_def)
  have second: "saveGameState (\<lambda>v. v)
       (file_store
          \<lparr>game_saves := FileSaves
             [\<lparr>save_id = 1, save_user_id = 1, game_state = JObj scenario_state,
               plots_data = JArr [], camera_data = JObj [(''x'', JNum 0), (''y'', JNum 0)],
               updated_at = 100\<rparr>],
           game_saves_seq := 1\<rparr>)
       160 1 later_payload =
     Inr (2, file_store
              \<lparr>game_saves := FileSaves
                 [\<lparr>save_id = 1, save_user_id = 1, game_state = JObj scenario_state,
                   plots_data = JArr [], camera_data = JObj [(''x'', JNum 0), (''y'', JNum 0)],
                   updated_at = 100\<rparr>,
                  \<lparr>save_id = 2, save_user_id = 1,
                   game_state = JObj [(''level'', JNum 4), (''coins'', JNum 650)],
                   plots_data = JArr [JObj [(''crop'', JStr ''wheat'')]],
                   camera_data = JObj [(''x'', JNum 5), (''y'', JNum 8)],
                   updated_at = 160\<rparr>],
               game_saves_seq := 2\<rparr>)"
    by (simp add: saveGameState_def later_payload_def file_store_def js_or_def next_rowid_def)
  from saveGameState_appends [OF second] first second show ?thesis
    by simp
qed

lemma foldr_insert_desc_latest:
  assumes "list_all (\<lambda>y. key y < key x) ys"
  shows "foldr (insert_desc key) ys (x # zs) = x # foldr (insert_desc key) ys zs"
  using assms
proof (induction ys)
  case Nil
  then show ?case by simp
next
  case (Cons y ys)
  from Cons.prems have lt: "key y < key x" and rest: "list_all (\<lambda>y. key y < key x) ys"
    by simp_all
  from lt have "\<not> key x \<le> key y" by (simp add: not_le)
  with Cons.IH [OF rest] show ?case by simp
qed

lemma order_by_desc_latest:
  assumes "list_all (\<lambda>y. key y < key x) ys"
  shows "order_by_desc key (ys @ [x]) = x # order_by_desc key ys"
  using foldr_insert_desc_latest [OF assms, of "[]"] by (simp add: order_by_desc_def)

lemma js_or_object: "js_or (Some (JObj kvs)) d = JObj kvs"
  by (simp add: js_or_def)

lemma js_or_array: "js_or (Some (JArr xs)) d = JArr xs"
  by (simp add: js_or_def)

text \<open>
  C1, as the code has it. Let the payload be an object whose \<^verbatim>\<open>gameState\<close> is an object,
  whose \<^verbatim>\<open>plots\<close> is an array and whose \<^verbatim>\<open>camera\<close> is an object, let the JSON library read
  back these three values from the text it writes for them, and let the save be stamped
  later than every stored save of the user. Then on a store created from \<^verbatim>\<open>schema.sql\<close>
  the save succeeds and the following load resolves with an object whose \<^verbatim>\<open>gameData\<close> holds
  the saved \<^verbatim>\<open>gameState\<close>, \<^verbatim>\<open>plots\<close> and \<^verbatim>\<open>camera\<close> unchanged, and in addition the fields
  \<^verbatim>\<open>sustainabilityMetrics\<close>, \<^verbatim>\<open>weather\<close> and \<^verbatim>\<open>season\<close> (those of the saved state, or an
  empty object), beside \<^verbatim>\<open>metadata.lastSaved\<close>; no other field of the payload is returned.
\<close>

theorem save_load_round_trip:
  assumes "gameData = JObj kvs"
    and "map_of kvs ''gameState'' = Some (JObj st)"
    and "map_of kvs ''plots'' = Some (JArr ps)"
    and "map_of kvs ''camera'' = Some (JObj cam)"
    and "parse (stringify (JObj st)) = Some (JObj st)"
    and "parse (stringify (JArr ps)) = Some (JArr ps)"
    and "parse (stringify (JObj cam)) = Some (JObj cam)"
    and "game_saves db = FileSaves rows"
    and "list_all (\<lambda>r. updated_at r < now) (filter (\<lambda>r. save_user_id r = userId) rows)"
  shows "\<exists>saveId db'.
           saveGameState stringify db now userId gameData = Inr (saveId, db') \<and>
           loadGameState parse db' userId =
             Inr (Some (loaded_object (JObj st) (JArr ps) (JObj cam)
                          (map_of st ''sustainabilityMetrics'') (map_of st ''weather'')
                          (map_of st ''season'') now))"
proof -
  let ?row = "\<lparr>save_id = next_rowid (game_saves_seq db) (map save_id rows),
               save_user_id = userId, game_state = stringify (JObj st),
               plots_data = stringify (JArr ps), camera_data = stringify (JObj cam),
               updated_at = now\<rparr>"
  let ?db' = "db\<lparr>game_saves := FileSaves (rows @ [?row]),
                 game_saves_seq := next_rowid (game_saves_seq db) (map save_id rows)\<rparr>"
  have saved: "saveGameState stringify db now userId gameData =
                 Inr (next_rowid (game_saves_seq db) (map save_id rows), ?db')"
    using assms(1-4,8) by (simp add: saveGameState_def Let_def js_or_object js_or_array)
  have "list_all (\<lambda>r. updated_at r < updated_at ?row) (filter (\<lambda>r. save_user_id r = userId) rows)"
    using assms(9) by simp
  then have first: "order_by_desc updated_at (filter (\<lambda>r. save_user_id r = userId) (rows @ [?row])) =
                ?row # order_by_desc updated_at (filter (\<lambda>r. save_user_id r = userId) rows)"
    using order_by_desc_latest [of updated_at ?row "filter (\<lambda>r. save_user_id r = userId) rows"]
    by simp
  have "loadGameState parse ?db' userId =
          Inr (Some (loaded_object (JObj st) (JArr ps) (JObj cam)
                       (map_of st ''sustainabilityMetrics'') (map_of st ''weather'')
                       (map_of st ''season'') now))"
    unfolding loadGameState_def using assms(5-7)
    by (simp add: first del: filter_append)
  with saved show ?thesis by blast
qed

theorem save_load_round_trip_witness:
  "scenario_payload =
     JObj [(''gameState'', JObj scenario_state), (''plots'', JArr []),
           (''camera'', JObj [(''x'', JNum 0), (''y'', JNum 0)])] \<and>
   map_of [(''gameState'', JObj scenario_state), (''plots'', JArr []),
           (''camera'', JObj [(''x'', JNum 0), (''y'', JNum 0)])] ''gameState'' =
     Some (JObj scenario_state) \<and>
   game_saves file_store = FileSaves [] \<and>
   list_all (\<lambda>r. updated_at r < 100) (filter (\<lambda>r. save_user_id r = 1) ([] :: json save_row list)) \<and>
   (\<exists>saveId db'.
      saveGameState (\<lambda>v. v) file_store 100 1 scenario_payload = Inr (saveId, db') \<and>
      loadGameState Some db' 1 =
        Inr (Some (JObj [(''gameData'',
                          JObj [(''gameState'', JObj scenario_state),
                                (''plots'', JArr []),
                                (''camera'', JObj [(''x'', JNum 0), (''y'', JNum 0)]),
                                (''sustainabilityMetrics'', JObj []),
                                (''weather'', JObj []),
                                (''season'', JObj [])]),
                         (''metadata'', JObj [(''lastSaved'', JNum 100)])])))"
proof -
  have p: "scenario_payload =
     JObj [(''gameState'', JObj scenario_state), (''plots'', JArr []),
           (''camera'', JObj [(''x'', JNum 0), (''y'', JNum 0)])]"
    by (simp add: scenario_payload_def)
  have t: "game_saves file_store = FileSaves []" by (simp add: file_store_def)
  have l: "list_all (\<lambda>r. updated_at r < 100)
             (filter (\<lambda>r. save_user_id r = 1) ([] :: json save_row list))" by simp
  have "\<exists>saveId db'.
      saveGameState (\<lambda>v. v) file_store 100 1 scenario_payload = Inr (saveId, db') \<and>
      loadGameState Some db' 1 =
        Inr (Some (loaded_object (JObj scenario_state) (JArr [])
                     (JObj [(''x'', JNum 0), (''y'', JNum 0)])
                     (map_of scenario_state ''sustainabilityMetrics'')
                     (map_of scenario_state ''weather'') (map_of scenario_state ''season'') 100))"
    by (rule save_load_round_trip [OF p _ _ _ _ _ _ t l]) simp_all
  then show ?thesis using p t
    by (simp add: loaded_object_def scenario_state_def js_or_def)
qed

text \<open>C1 as stated fails: the object loaded after a save is not the payload saved; it has
  fields that the payload does not have.\<close>

theorem save_load_counterexample:
  "saveGameState (\<lambda>v. v) store_farmer1 100 1
       (JObj [(''gameState'', JObj []), (''plots'', JArr []), (''camera'', JObj [])]) =
     Inr (1, store_farmer1
              \<lparr>game_saves := FileSaves
                 [\<lparr>save_id = 1, save_user_id = 1, game_state = JObj [], plots_data = JArr [],
                   camera_data = JObj [], updated_at = 100\<rparr>],
               game_saves_seq := 1\<rparr>) \<and>
   loadGameState Some
       (store_farmer1
          \<lparr>game_saves := FileSaves
             [\<lparr>save_id = 1, save_user_id = 1, game_state = JObj [], plots_data = JArr [],
               camera_data = JObj [], updated_at = 100\<rparr>],
           game_saves_seq := 1\<rparr>) 1 =
     Inr (Some (JObj [(''gameData'',
                       JObj [(''gameState'', JObj []), (''plots'', JArr []), (''camera'', JObj []),
                             (''sustainabilityMetrics'', JObj []), (''weather'', JObj []),
                             (''season'', JObj [])]),
                      (''metadata'', JObj [(''lastSaved'', JNum 100)])])) \<and>
   JObj [(''gameState'', JObj []), (''plots'', JArr []), (''camera'', JObj []),
         (''sustainabilityMetrics'', JObj []), (''weather'', JObj []), (''season'', JObj [])] \<noteq>
   JObj [(''gameState'', JObj []), (''plots'', JArr []), (''camera'', JObj [])] \<and>
   get_prop (JObj [(''gameState'', JObj []), (''plots'', JArr []), (''camera'', JObj [])])
     ''weather'' = Inr None"
  by (simp add: saveGameState_def loadGameState_def loaded_object_def store_farmer1_def js_or_def
      next_rowid_def order_by_desc_def)

lemma saveGameState_users:
  "saveGameState stringify db now userId gameData = Inr (saveId, db') \<Longrightarrow> users db' = users db"
  by (auto simp: saveGameState_def Let_def split: sum.splits saves_table.splits)

text \<open>
  C3 on the code, at the specification's scenario. \<^verbatim>\<open>saveGameState\<close> stores the snapshot of
  \<^verbatim>\<open>farmer1\<close> and writes nothing else: the rows of \<^verbatim>\<open>users\<close> are as before. The following
  \<^verbatim>\<open>getLeaderboard("total_coins", 10)\<close> is rejected as an invalid category, and
  \<^verbatim>\<open>getLeaderboard("sustainability", 10)\<close> fails on the store the save has written.
\<close>

theorem save_then_getLeaderboard:
  "saveGameState (\<lambda>v. v) store_farmer1 100 1 scenario_payload = Inr (1, store_saved) \<and>
   users store_saved = users store_farmer1 \<and>
   getLeaderboard store_saved ''total_coins'' 10 = Inl (Error ''Invalid leaderboard category'') \<and>
   getLeaderboard store_saved ''sustainability'' 10 = Inl (SqliteError ''SQLITE_ERROR'')"
proof (intro conjI)
  show "saveGameState (\<lambda>v. v) store_farmer1 100 1 scenario_payload = Inr (1, store_saved)"
    by (simp add: saveGameState_def scenario_payload_def store_saved_def store_farmer1_def
        js_or_def next_rowid_def)
  show "users store_saved = users store_farmer1"
    by (simp add: store_saved_def)
  show "getLeaderboard store_saved ''total_coins'' 10 = Inl (Error ''Invalid leaderboard category'')"
    by (rule getLeaderboard_unrecognized) (rule score_column_total_coins)
  show "getLeaderboard store_saved ''sustainability'' 10 = Inl (SqliteError ''SQLITE_ERROR'')"
    by (simp add: getLeaderboard_def score_column_def store_saved_def)
qed

lemma find_append_fresh:
  "list_all (\<lambda>y. \<not> P y) ys \<Longrightarrow> P x \<Longrightarrow> find P (ys @ [x]) = Some x"
  by (induction ys) simp_all

text \<open>
  C4. A session issued for a user with time-to-live \<open>ttl\<close> at time \<open>now\<close>, under a token whose
  fingerprint no stored session has: validating the raw token at any time strictly before
  \<open>now + ttl\<close> succeeds with the identity of the bound user; validating it at \<open>now + ttl\<close> or
  later fails with \<open>ExpiredSession\<close>, the session record being still stored.
\<close>

theorem validate_window:
  assumes "list_all (\<lambda>s. token_hash s \<noteq> fingerprint rawToken) sessions"
    and "issue fingerprint sessions now rawToken userId ttl originMeta = (token, session, sessions')"
  shows "(t < now + ttl \<longrightarrow>
            validate fingerprint us sessions' t token =
              Inr (\<lparr>ident_id = userId,
                    ident_username = map_option username (find (\<lambda>u. user_id u = userId) us)\<rparr>,
                   sessions @ [session\<lparr>last_used := t\<rparr>])) \<and>
         (now + ttl \<le> t \<longrightarrow>
            validate fingerprint us sessions' t token = Inl ExpiredSession \<and>
            session \<in> set sessions')"
proof -
  from assms(2) have tok: "token = rawToken"
    and ses: "session = \<lparr>session_user_id = userId, token_hash = fingerprint rawToken,
                         expires_at = now + ttl, created_at = now, last_used = now,
                         ip_address = fst originMeta, user_agent = snd originMeta\<rparr>"
    and all: "sessions' = sessions @ [session]"
    by (auto simp: issue_def Let_def)
  have "find (\<lambda>s. token_hash s = fingerprint rawToken) (sessions @ [session]) = Some session"
    using assms(1) by (intro find_append_fresh) (simp_all add: ses)
  then have found: "find (\<lambda>s. token_hash s = fingerprint token) sessions' = Some session"
    by (simp add: tok all)
  have exp: "expires_at session = now + ttl" and uid: "session_user_id session = userId"
    by (simp_all add: ses)
  have stored: "session \<in> set sessions'" by (simp add: all)
  have "map (\<lambda>s. if token_hash s = fingerprint rawToken then s\<lparr>last_used := t\<rparr> else s) sessions =
          sessions"
    using assms(1) by (induction sessions) simp_all
  then have refreshed:
    "map (\<lambda>s. if token_hash s = fingerprint token then s\<lparr>last_used := t\<rparr> else s) sessions' =
       sessions @ [session\<lparr>last_used := t\<rparr>]"
    by (simp add: tok all ses)
  show ?thesis
    by (simp add: validate_def found exp uid stored refreshed)
qed

theorem validate_window_witness:
  "list_all (\<lambda>s. token_hash s \<noteq> ''#'' @ ''tok-1'') [] \<and>
   issue (\<lambda>raw. ''#'' @ raw) [] 1000 ''tok-1'' 1 1 (''10.0.0.1'', ''browser'') =
     (''tok-1'',
      \<lparr>session_user_id = 1, token_hash = ''#tok-1'', expires_at = 1001, created_at = 1000,
       last_used = 1000, ip_address = ''10.0.0.1'', user_agent = ''browser''\<rparr>,
      [\<lparr>session_user_id = 1, token_hash = ''#tok-1'', expires_at = 1001, created_at = 1000,
        last_used = 1000, ip_address = ''10.0.0.1'', user_agent = ''browser''\<rparr>]) \<and>
   validate (\<lambda>raw. ''#'' @ raw) sample_users
     [\<lparr>session_user_id = 1, token_hash = ''#tok-1'', expires_at = 1001, created_at = 1000,
       last_used = 1000, ip_address = ''10.0.0.1'', user_agent = ''browser''\<rparr>] 1000 ''tok-1'' =
     Inr (\<lparr>ident_id = 1, ident_username = Some ''farmer1''\<rparr>,
          [\<lparr>session_user_id = 1, token_hash = ''#tok-1'', expires_at = 1001, created_at = 1000,
            last_used = 1000, ip_address = ''10.0.0.1'', user_agent = ''browser''\<rparr>]) \<and>
   validate (\<lambda>raw. ''#'' @ raw) sample_users
     [\<lparr>session_user_id = 1, token_hash = ''#tok-1'', expires_at = 1001, created_at = 1000,
       last_used = 1000, ip_address = ''10.0.0.1'', user_agent = ''browser''\<rparr>] 1002 ''tok-1'' =
     Inl ExpiredSession"
proof -
  have fresh: "list_all (\<lambda>s. token_hash s \<noteq> (\<lambda>raw. ''#'' @ raw) ''tok-1'') []" by simp
  have issued: "issue (\<lambda>raw. ''#'' @ raw) [] 1000 ''tok-1'' 1 1 (''10.0.0.1'', ''browser'') =
     (''tok-1'',
      \<lparr>session_user_id = 1, token_hash = ''#tok-1'', expires_at = 1001, created_at = 1000,
       last_used = 1000, ip_address = ''10.0.0.1'', user_agent = ''browser''\<rparr>,
      [\<lparr>session_user_id = 1, token_hash = ''#tok-1'', expires_at = 1001, created_at = 1000,
        last_used = 1000, ip_address = ''10.0.0.1'', user_agent = ''browser''\<rparr>])"
    by (simp add: issue_def Let_def)
  have late: "validate (\<lambda>raw. ''#'' @ raw) sample_users
     [\<lparr>session_user_id = 1, token_hash = ''#tok-1'', expires_at = 1001, created_at = 1000,
       last_used = 1000, ip_address = ''10.0.0.1'', user_agent = ''browser''\<rparr>] 1002 ''tok-1'' =
     Inl ExpiredSession"
    using validate_window [OF fresh issued, of 1002 sample_users] by simp
  have early: "validate (\<lambda>raw. ''#'' @ raw) sample_users
     [\<lparr>session_user_id = 1, token_hash = ''#tok-1'', expires_at = 1001, created_at = 1000,
       last_used = 1000, ip_address = ''10.0.0.1'', user_agent = ''browser''\<rparr>] 1000 ''tok-1'' =
     Inr (\<lparr>ident_id = 1, ident_username = Some ''farmer1''\<rparr>,
          [\<lparr>session_user_id = 1, token_hash = ''#tok-1'', expires_at = 1001, created_at = 1000,
            last_used = 1000, ip_address = ''10.0.0.1'', user_agent = ''browser''\<rparr>])"
    by (simp add: validate_def sample_users_def)
  from fresh issued early late show ?thesis by simp
qed

text \<open>
  C6. After a successful \<open>add\<close> for a user and a name, a second \<open>add\<close> for the same user and
  name (whatever its type, description and points) fails with \<open>DuplicateAchievement\<close>, and
  the ledger holds exactly one record for the pair.
\<close>

theorem add_twice:
  assumes "add ledger now userId atype name descr pts = Inr (achievement, ledger')"
  shows "add ledger' now2 userId atype2 name descr2 pts2 = Inl DuplicateAchievement \<and>
         length (filter (\<lambda>a. achievement_user_id a = userId \<and> achievement_name a = name) ledger') = 1"
proof -
  from assms have fresh: "\<not> list_ex (\<lambda>a. achievement_user_id a = userId \<and> achievement_name a = name) ledger"
    and ach: "achievement = \<lparr>achievement_user_id = userId, achievement_type = atype,
                            achievement_name = name, description = descr, points = pts,
                            earned_at = now\<rparr>"
    and led: "ledger' = ledger @ [achievement]"
    by (auto simp: add_def Let_def split: if_splits)
  from fresh have none: "filter (\<lambda>a. achievement_user_id a = userId \<and> achievement_name a = name) ledger = []"
    by (auto simp: list_ex_iff filter_empty_conv)
  have dup: "list_ex (\<lambda>a. achievement_user_id a = userId \<and> achievement_name a = name) ledger'"
    by (simp add: led ach list_ex_iff)
  then have "add ledger' now2 userId atype2 name descr2 pts2 = Inl DuplicateAchievement"
    by (simp add: add_def)
  moreover have "length (filter (\<lambda>a. achievement_user_id a = userId \<and> achievement_name a = name) ledger') = 1"
    by (simp add: led none ach)
  ultimately show ?thesis by simp
qed

theorem add_twice_witness:
  "add [] 500 1 ''sustainability'' ''Eco Master'' (Some ''Reached the top rating'') 50 =
     Inr (\<lparr>achievement_user_id = 1, achievement_type = ''sustainability'',
           achievement_name = ''Eco Master'', description = Some ''Reached the top rating'',
           points = 50, earned_at = 500\<rparr>,
          [\<lparr>achievement_user_id = 1, achievement_type = ''sustainability'',
            achievement_name = ''Eco Master'', description = Some ''Reached the top rating'',
            points = 50, earned_at = 500\<rparr>]) \<and>
   add [\<lparr>achievement_user_id = 1, achievement_type = ''sustainability'',
         achievement_name = ''Eco Master'', description = Some ''Reached the top rating'',
         points = 50, earned_at = 500\<rparr>] 501 1 ''sustainability'' ''Eco Master'' None 0 =
     Inl DuplicateAchievement \<and>
   length (filter (\<lambda>a. achievement_user_id a = 1 \<and> achievement_name a = ''Eco Master'')
     [\<lparr>achievement_user_id = 1, achievement_type = ''sustainability'',
       achievement_name = ''Eco Master'', description = Some ''Reached the top rating'',
       points = 50, earned_at = 500\<rparr>]) = 1"
proof -
  have first: "add [] 500 1 ''sustainability'' ''Eco Master'' (Some ''Reached the top rating'') 50 =
     Inr (\<lparr>achievement_user_id = 1, achievement_type = ''sustainability'',
           achievement_name = ''Eco Master'', description = Some ''Reached the top rating'',
           points = 50, earned_at = 500\<rparr>,
          [\<lparr>achievement_user_id = 1, achievement_type = ''sustainability'',
            achievement_name = ''Eco Master'', description = Some ''Reached the top rating'',
            points = 50, earned_at = 500\<rparr>])"
    by (simp add: add_def Let_def)
  from add_twice [OF first, of 501 "''sustainability''" None 0] first show ?thesis
    by simp
qed

end
